theory Spec2Isabelle
  imports Complex_Main
begin

section \<open>Types.ts: the player status\<close>

datatype SyncPlayerStatus = Ready | Pause | Buffering | Playing | Ended

section \<open>AtomPlayer.ts: the abstract template class\<close>

text \<open>
  The events of \<^verbatim>\<open>AtomPlayerEvents\<close> and the private enum \<^verbatim>\<open>AtomPlayerInitStatus\<close>
  (its member \<^verbatim>\<open>Ready\<close> is written \<open>Init_Ready\<close>, the name \<open>Ready\<close> being the status).
\<close>

datatype AtomPlayerEvents =
  status_event | timeupdate | durationchange | ratechange | visibilitychange | ready_event

datatype AtomPlayerInitStatus = Init_Idle | Initializing | Init_Ready

text \<open>
  The fields of an \<^verbatim>\<open>AtomPlayer\<close>. Times are the results of \<^verbatim>\<open>Math.floor\<close>, hence
  integers; the playback rate is a JavaScript number, taken here as a rational (so
  \<^verbatim>\<open>NaN\<close> and the infinities are outside the model). \<open>emitted\<close> is not a field of
  the class: it records, oldest first, the events the object has passed to
  \<^verbatim>\<open>this.emit\<close>, so that "no notification" can be stated.
\<close>

record AtomPlayer =
  initStatus :: AtomPlayerInitStatus
  status :: SyncPlayerStatus
  ignoreSetStatus :: bool
  currentTime :: int
  duration :: int
  playbackRate :: rat
  visible :: bool
  emitted :: "AtomPlayerEvents list"

text \<open>
  A program state \<open>'w\<close> may hold several player objects (a combinator and its
  children). A \<open>handle\<close> is the reference \<^verbatim>\<open>this\<close> of one of them: how to read and
  write its \<^verbatim>\<open>AtomPlayer\<close> fields in the state, and the listeners registered on it
  with \<^verbatim>\<open>on(event, listener)\<close>, which \<^verbatim>\<open>emit\<close> runs synchronously.
\<close>

record 'w handle =
  view :: "'w \<Rightarrow> AtomPlayer"
  modify :: "(AtomPlayer \<Rightarrow> AtomPlayer) \<Rightarrow> 'w \<Rightarrow> 'w"
  listeners :: "AtomPlayerEvents \<Rightarrow> 'w \<Rightarrow> 'w"

definition emit :: "'w handle \<Rightarrow> AtomPlayerEvents \<Rightarrow> 'w \<Rightarrow> 'w" where
  "emit h ev w = listeners h ev (modify h (\<lambda>p. p\<lparr>emitted := emitted p @ [ev]\<rparr>) w)"

definition isReady :: "'w handle \<Rightarrow> 'w \<Rightarrow> bool" where
  "isReady h w = (initStatus (view h w) = Init_Ready)"

definition isPlaying :: "'w handle \<Rightarrow> 'w \<Rightarrow> bool" where
  "isPlaying h w = (status (view h w) = Playing \<or> status (view h w) = Buffering)"

subsection \<open>utils.ts\<close>

definition normalize :: "rat \<Rightarrow> rat" where
  "normalize rate = of_int \<lfloor>rate * 1000\<rfloor> / 1000"

definition isEqual :: "rat \<Rightarrow> rat \<Rightarrow> bool" where
  "isEqual rate1 rate2 = (\<lfloor>rate1 * 1000\<rfloor> = \<lfloor>rate2 * 1000\<rfloor>)"

subsection \<open>The property setters\<close>

definition set_status :: "'w handle \<Rightarrow> SyncPlayerStatus \<Rightarrow> 'w \<Rightarrow> 'w" where
  "set_status h v w =
     (if \<not> ignoreSetStatus (view h w) \<and> status (view h w) \<noteq> v
      then emit h status_event (modify h (\<lambda>p. p\<lparr>status := v\<rparr>) w)
      else w)"

definition set_currentTime :: "'w handle \<Rightarrow> rat \<Rightarrow> 'w \<Rightarrow> 'w" where
  "set_currentTime h ms w =
     (let ms' = \<lfloor>ms\<rfloor> in
      if currentTime (view h w) \<noteq> ms'
      then emit h timeupdate (modify h (\<lambda>p. p\<lparr>currentTime := ms'\<rparr>) w)
      else w)"

definition set_duration :: "'w handle \<Rightarrow> rat \<Rightarrow> 'w \<Rightarrow> 'w" where
  "set_duration h ms w =
     (let ms' = \<lfloor>ms\<rfloor> in
      if duration (view h w) \<noteq> ms'
      then emit h durationchange (modify h (\<lambda>p. p\<lparr>duration := ms'\<rparr>) w)
      else w)"

text \<open>\<open>setPlaybackRateImpl\<close> is the subclass hook the setter calls before it stores the rate.\<close>

definition set_playbackRate :: "'w handle \<Rightarrow> (rat \<Rightarrow> 'w \<Rightarrow> 'w) \<Rightarrow> rat \<Rightarrow> 'w \<Rightarrow> 'w" where
  "set_playbackRate h setPlaybackRateImpl v w =
     (let rate = normalize v in
      if \<not> isEqual (playbackRate (view h w)) rate
      then emit h ratechange
             (modify h (\<lambda>p. p\<lparr>playbackRate := rate\<rparr>) (setPlaybackRateImpl rate w))
      else w)"

definition set_visible :: "'w handle \<Rightarrow> bool \<Rightarrow> 'w \<Rightarrow> 'w" where
  "set_visible h v w =
     (if visible (view h w) \<noteq> v
      then emit h visibilitychange (modify h (\<lambda>p. p\<lparr>visible := v\<rparr>) w)
      else w)"

text \<open>A player that is the whole state, with no listener registered on it.\<close>

definition alone :: "AtomPlayer handle" where
  "alone = \<lparr>view = (\<lambda>p. p), modify = (\<lambda>f p. f p), listeners = (\<lambda>ev p. p)\<rparr>"

subsection \<open>Asynchronous operations and the initialization gate\<close>

text \<open>
  Every public operation is an \<^verbatim>\<open>async\<close> method. Where its caller awaits it, the
  operation is modelled as running to its end before the caller goes on. The one point
  where an operation stops for an outside event is \<^verbatim>\<open>await this.loadInit\<close>, which
  settles only when the timer task of \<^verbatim>\<open>init\<close> has run: \<open>AwaitInit w\<close> says that the
  operation is suspended there, in state \<open>w\<close>; the caller that awaits it is
  suspended with it (\<open>andThen\<close>). \<open>Promise.all\<close> over two calls starts both before it
  awaits either (\<open>all2\<close>).
\<close>

datatype 'w outcome = Done 'w | AwaitInit 'w

fun andThen :: "'w outcome \<Rightarrow> ('w \<Rightarrow> 'w outcome) \<Rightarrow> 'w outcome" where
  "andThen (Done w) f = f w"
| "andThen (AwaitInit w) f = AwaitInit w"

fun state_of :: "'w outcome \<Rightarrow> 'w" where
  "state_of (Done w) = w"
| "state_of (AwaitInit w) = w"

definition all2 :: "('w \<Rightarrow> 'w outcome) \<Rightarrow> ('w \<Rightarrow> 'w outcome) \<Rightarrow> 'w \<Rightarrow> 'w outcome" where
  "all2 f g w =
     (case f w of
        Done w1 \<Rightarrow> g w1
      | AwaitInit w1 \<Rightarrow> AwaitInit (state_of (g w1)))"

text \<open>
  The \<^verbatim>\<open>async\<close> hooks a subclass implements (the sixth hook, \<^verbatim>\<open>setPlaybackRateImpl\<close>,
  is the argument of \<open>set_playbackRate\<close>).
\<close>

record 'w hooks =
  readyImpl :: "'w \<Rightarrow> 'w outcome"
  playImpl :: "'w \<Rightarrow> 'w outcome"
  pauseImpl :: "'w \<Rightarrow> 'w outcome"
  stopImpl :: "'w \<Rightarrow> 'w outcome"
  seekImpl :: "int \<Rightarrow> 'w \<Rightarrow> 'w outcome"

text \<open>
  \<^verbatim>\<open>init()\<close> is called by the constructor. \<open>init\<close> is what it does before its first
  \<^verbatim>\<open>await\<close>; \<open>init_resume\<close> is the rest, run from the timer task (\<^verbatim>\<open>initImpl\<close> is
  \<^verbatim>\<open>Promise.resolve()\<close>, and no class of the repository overrides it).
\<close>

definition init :: "'w handle \<Rightarrow> 'w \<Rightarrow> 'w" where
  "init h w =
     (case initStatus (view h w) of
        Init_Ready \<Rightarrow> w
      | Initializing \<Rightarrow> w
      | Init_Idle \<Rightarrow> modify h (\<lambda>p. p\<lparr>ignoreSetStatus := True, initStatus := Initializing\<rparr>) w)"

definition init_resume :: "'w handle \<Rightarrow> 'w \<Rightarrow> 'w" where
  "init_resume h w =
     modify h (\<lambda>p. p\<lparr>ignoreSetStatus := False\<rparr>)
       (emit h ready_event (modify h (\<lambda>p. p\<lparr>initStatus := Init_Ready\<rparr>) w))"

definition ready :: "'w handle \<Rightarrow> 'w hooks \<Rightarrow> 'w \<Rightarrow> 'w outcome" where
  "ready h k w =
     (if \<not> isReady h w then AwaitInit (set_status h Buffering w)
      else if status (view h w) \<noteq> Ready then readyImpl k (set_status h Ready w)
      else Done w)"

definition play :: "'w handle \<Rightarrow> 'w hooks \<Rightarrow> 'w \<Rightarrow> 'w outcome" where
  "play h k w =
     (if \<not> isReady h w then AwaitInit (set_status h Buffering w)
      else if status (view h w) \<noteq> Playing \<and> status (view h w) \<noteq> Ended then playImpl k w
      else Done w)"

definition pause :: "'w handle \<Rightarrow> 'w hooks \<Rightarrow> 'w \<Rightarrow> 'w outcome" where
  "pause h k w =
     (if \<not> isReady h w then AwaitInit w
      else if status (view h w) \<noteq> Pause \<and> status (view h w) \<noteq> Ended
      then pauseImpl k (set_status h Pause w)
      else Done w)"

definition stop :: "'w handle \<Rightarrow> 'w hooks \<Rightarrow> 'w \<Rightarrow> 'w outcome" where
  "stop h k w =
     (if \<not> isReady h w then AwaitInit w
      else if status (view h w) = Ended then Done w
      else andThen (readyImpl k (modify h (\<lambda>p. p\<lparr>ignoreSetStatus := True\<rparr>)
                                   (set_status h Ended w)))
             (\<lambda>w1. andThen (stopImpl k w1)
             (\<lambda>w2. Done (modify h (\<lambda>p. p\<lparr>ignoreSetStatus := False\<rparr>) w2))))"

definition seek :: "'w handle \<Rightarrow> 'w hooks \<Rightarrow> rat \<Rightarrow> 'w \<Rightarrow> 'w outcome" where
  "seek h k ms w =
     (if \<not> isReady h w then AwaitInit w
      else let ms' = max \<lfloor>ms\<rfloor> 0 in
        if ms' = currentTime (view h w) then Done w
        else if ms' \<ge> duration (view h w) then stop h k w
        else let lastStatus = status (view h w) in
          andThen (seekImpl k ms' w)
            (\<lambda>w1. case lastStatus of
                     Ready \<Rightarrow> ready h k w1
                   | Ended \<Rightarrow> ready h k w1
                   | Pause \<Rightarrow> pause h k w1
                   | Buffering \<Rightarrow> play h k w1
                   | Playing \<Rightarrow> play h k w1))"

subsection \<open>Calls that are not awaited\<close>

text \<open>
  Two callers in the repository call an operation without awaiting it: \<^verbatim>\<open>playRaf\<close> of
  \<^verbatim>\<open>TickPlayer\<close> (\<^verbatim>\<open>this.stop()\<close>) and the \<^verbatim>\<open>async\<close> status listener that
  \<^verbatim>\<open>OffsetPlayer\<close> puts on its timer (\<^verbatim>\<open>await this.player.seek(0)\<close> inside a listener
  nobody awaits). Such a call runs up to its first \<^verbatim>\<open>await\<close> inside the caller; the
  rest runs later, as a microtask. \<open>stop_head\<close> and \<open>seek_head\<close> are the part up to the
  first \<^verbatim>\<open>await\<close>, with what is left to do; \<open>stop_tail\<close> and \<open>seek_tail\<close> are the rest.
  They are used with the hooks of \<^verbatim>\<open>TickPlayer\<close> only, whose bodies hold no
  \<^verbatim>\<open>await\<close>, so that a hook called before the first \<^verbatim>\<open>await\<close> has run completely
  (\<open>stop_head\<close> and \<open>stop_tail\<close> take the one hook they call).
\<close>

datatype stop_rest = stop_returned | stop_awaits_init | stop_awaits_readyImpl

definition stop_head :: "'w handle \<Rightarrow> ('w \<Rightarrow> 'w outcome) \<Rightarrow> 'w \<Rightarrow> 'w \<times> stop_rest" where
  "stop_head h readyImpl' w =
     (if \<not> isReady h w then (w, stop_awaits_init)
      else if status (view h w) = Ended then (w, stop_returned)
      else case readyImpl' (modify h (\<lambda>p. p\<lparr>ignoreSetStatus := True\<rparr>)
                              (set_status h Ended w)) of
             Done w1 \<Rightarrow> (w1, stop_awaits_readyImpl)
           | AwaitInit w1 \<Rightarrow> (w1, stop_awaits_init))"

definition stop_tail :: "'w handle \<Rightarrow> ('w \<Rightarrow> 'w outcome) \<Rightarrow> stop_rest \<Rightarrow> 'w \<Rightarrow> 'w outcome" where
  "stop_tail h stopImpl' r w =
     (case r of
        stop_returned \<Rightarrow> Done w
      | stop_awaits_init \<Rightarrow> AwaitInit w
      | stop_awaits_readyImpl \<Rightarrow>
          andThen (stopImpl' w)
            (\<lambda>w2. Done (modify h (\<lambda>p. p\<lparr>ignoreSetStatus := False\<rparr>) w2)))"

datatype seek_rest =
  seek_returned | seek_awaits_init | seek_awaits_stop stop_rest | seek_awaits_seekImpl SyncPlayerStatus

definition seek_head :: "'w handle \<Rightarrow> 'w hooks \<Rightarrow> rat \<Rightarrow> 'w \<Rightarrow> 'w \<times> seek_rest" where
  "seek_head h k ms w =
     (if \<not> isReady h w then (w, seek_awaits_init)
      else let ms' = max \<lfloor>ms\<rfloor> 0 in
        if ms' = currentTime (view h w) then (w, seek_returned)
        else if ms' \<ge> duration (view h w)
          then (case stop_head h (readyImpl k) w of (w1, r) \<Rightarrow> (w1, seek_awaits_stop r))
        else let lastStatus = status (view h w) in
          case seekImpl k ms' w of
            Done w1 \<Rightarrow> (w1, seek_awaits_seekImpl lastStatus)
          | AwaitInit w1 \<Rightarrow> (w1, seek_awaits_init))"


section \<open>TickPlayer.ts: the clock player\<close>

text \<open>
  A \<^verbatim>\<open>TickPlayer\<close> is an \<^verbatim>\<open>AtomPlayer\<close> (\<open>atom\<close>) with the variables of its timer
  closures: \<open>playRafTicket\<close> says whether the variable of that name holds a request id
  (\<open>False\<close> is \<^verbatim>\<open>NaN\<close>, the only falsy value it takes), \<open>rafPending\<close> whether a
  \<^verbatim>\<open>playRaf\<close> callback is scheduled with \<^verbatim>\<open>requestAnimationFrame\<close>, and \<open>startTime\<close>,
  \<open>timerRate\<close> are the arguments of \<^verbatim>\<open>_startTimer\<close> that this callback has captured.
  \<^verbatim>\<open>Date.now()\<close> is not part of the state: \<^verbatim>\<open>playRaf\<close> takes the elapsed time
  \<^verbatim>\<open>Date.now() - startTimestamp\<close> as an argument, which is 0 for the call that
  \<^verbatim>\<open>_startTimer\<close> makes itself (the clock is read twice in one synchronous run).
\<close>

record TickPlayer =
  atom :: AtomPlayer
  playRafTicket :: bool
  rafPending :: bool
  startTime :: int
  timerRate :: rat

text \<open>
  The reference to a \<^verbatim>\<open>TickPlayer\<close> in a program state, with the listeners registered
  on it; \<open>queue_stop\<close> puts the rest of a \<^verbatim>\<open>this.stop()\<close> that \<^verbatim>\<open>playRaf\<close> did not
  await, and that has something left to run, on the microtask queue of the state.
\<close>

record 'w tick_handle =
  tick :: "'w \<Rightarrow> TickPlayer"
  tick_modify :: "(TickPlayer \<Rightarrow> TickPlayer) \<Rightarrow> 'w \<Rightarrow> 'w"
  tick_listeners :: "AtomPlayerEvents \<Rightarrow> 'w \<Rightarrow> 'w"
  queue_stop :: "'w \<Rightarrow> 'w"

definition atom_of :: "'w tick_handle \<Rightarrow> 'w handle" where
  "atom_of t =
     \<lparr>view = (\<lambda>w. atom (tick t w)),
      modify = (\<lambda>f. tick_modify t (\<lambda>x. x\<lparr>atom := f (atom x)\<rparr>)),
      listeners = tick_listeners t\<rparr>"

definition stopTimer :: "'w tick_handle \<Rightarrow> 'w \<Rightarrow> 'w" where
  "stopTimer t w = tick_modify t (\<lambda>x. x\<lparr>rafPending := False, playRafTicket := False\<rparr>) w"

definition Tick_readyImpl :: "'w tick_handle \<Rightarrow> 'w \<Rightarrow> 'w outcome" where
  "Tick_readyImpl t w = Done (stopTimer t w)"

definition playRaf :: "'w tick_handle \<Rightarrow> int \<Rightarrow> 'w \<Rightarrow> 'w" where
  "playRaf t elapsed w =
     (let w1 = set_currentTime (atom_of t)
                 (of_int elapsed * timerRate (tick t w) + of_int (startTime (tick t w))) w
      in if currentTime (atom (tick t w1)) \<ge> duration (atom (tick t w1))
         then (case stop_head (atom_of t) (Tick_readyImpl t) w1 of
                 (w2, r) \<Rightarrow> if r = stop_awaits_readyImpl then queue_stop t w2 else w2)
         else tick_modify t (\<lambda>x. x\<lparr>playRafTicket := True, rafPending := True\<rparr>) w1)"

definition startTimer :: "'w tick_handle \<Rightarrow> int \<Rightarrow> rat \<Rightarrow> 'w \<Rightarrow> 'w" where
  "startTimer t startTime' playbackRate' w =
     playRaf t 0
       (tick_modify t
          (\<lambda>x. x\<lparr>rafPending := False, startTime := startTime', timerRate := playbackRate'\<rparr>) w)"

definition resetTimer :: "'w tick_handle \<Rightarrow> int \<Rightarrow> rat \<Rightarrow> 'w \<Rightarrow> 'w" where
  "resetTimer t startTime' playbackRate' w =
     (if playRafTicket (tick t w) then startTimer t startTime' playbackRate' w
      else set_currentTime (atom_of t) (of_int startTime') w)"

definition Tick_playImpl :: "'w tick_handle \<Rightarrow> 'w \<Rightarrow> 'w outcome" where
  "Tick_playImpl t w =
     Done (set_status (atom_of t) Playing
             (startTimer t (currentTime (atom (tick t w))) (playbackRate (atom (tick t w))) w))"

definition Tick_pauseImpl :: "'w tick_handle \<Rightarrow> 'w \<Rightarrow> 'w outcome" where
  "Tick_pauseImpl t w = Done (stopTimer t w)"

definition Tick_stopImpl :: "'w tick_handle \<Rightarrow> 'w \<Rightarrow> 'w outcome" where
  "Tick_stopImpl t w =
     (let w1 = stopTimer t w
      in Done (set_currentTime (atom_of t) (of_int (duration (atom (tick t w1)))) w1))"

definition Tick_seekImpl :: "'w tick_handle \<Rightarrow> int \<Rightarrow> 'w \<Rightarrow> 'w outcome" where
  "Tick_seekImpl t ms w = Done (resetTimer t ms (playbackRate (atom (tick t w))) w)"

definition Tick_setPlaybackRateImpl :: "'w tick_handle \<Rightarrow> rat \<Rightarrow> 'w \<Rightarrow> 'w" where
  "Tick_setPlaybackRateImpl t playbackRate' w =
     resetTimer t (currentTime (atom (tick t w))) playbackRate' w"

definition Tick_hooks :: "'w tick_handle \<Rightarrow> 'w hooks" where
  "Tick_hooks t =
     \<lparr>readyImpl = Tick_readyImpl t, playImpl = Tick_playImpl t, pauseImpl = Tick_pauseImpl t,
      stopImpl = Tick_stopImpl t, seekImpl = Tick_seekImpl t\<rparr>"


text \<open>
  The constructors. \<^verbatim>\<open>AtomPlayer\<close>'s sets the field defaults and calls \<^verbatim>\<open>init()\<close>;
  \<^verbatim>\<open>TickPlayer\<close>'s then assigns the duration (no listener can be registered yet) and
  leaves \<^verbatim>\<open>playRafTicket\<close> at \<^verbatim>\<open>NaN\<close>.
\<close>

definition AtomPlayer_new :: AtomPlayer where
  "AtomPlayer_new =
     init alone
       \<lparr>initStatus = Init_Idle, status = Ready, ignoreSetStatus = False, currentTime = 0,
        duration = 0, playbackRate = 1, visible = True, emitted = []\<rparr>"

definition unshared :: "TickPlayer tick_handle" where
  "unshared =
     \<lparr>tick = (\<lambda>x. x), tick_modify = (\<lambda>f x. f x), tick_listeners = (\<lambda>ev x. x),
      queue_stop = (\<lambda>x. x)\<rparr>"

definition TickPlayer_new :: "rat \<Rightarrow> TickPlayer" where
  "TickPlayer_new duration' =
     set_duration (atom_of unshared) duration'
       \<lparr>atom = AtomPlayer_new, playRafTicket = False, rafPending = False,
        startTime = 0, timerRate = 1\<rparr>"

text \<open>
  A program whose only player is one \<^verbatim>\<open>TickPlayer\<close> with no listener on it:
  \<open>the_tick\<close>, and the number of microtasks it has queued (each the rest of a
  \<^verbatim>\<open>this.stop()\<close> that \<^verbatim>\<open>playRaf\<close> did not await, which \<open>Solo_microtask\<close> runs).
\<close>

record Solo =
  the_tick :: TickPlayer
  stop_rests :: nat

definition solo :: "Solo tick_handle" where
  "solo =
     \<lparr>tick = the_tick, tick_modify = (\<lambda>f w. w\<lparr>the_tick := f (the_tick w)\<rparr>),
      tick_listeners = (\<lambda>ev w. w),
      queue_stop = (\<lambda>w. w\<lparr>stop_rests := stop_rests w + 1\<rparr>)\<rparr>"

definition Solo_new :: "rat \<Rightarrow> Solo" where
  "Solo_new duration' = \<lparr>the_tick = TickPlayer_new duration', stop_rests = 0\<rparr>"

definition Solo_microtask :: "Solo \<Rightarrow> Solo" where
  "Solo_microtask w =
     (if stop_rests w > 0
      then state_of (stop_tail (atom_of solo) (Tick_stopImpl solo) stop_awaits_readyImpl
                       (w\<lparr>stop_rests := stop_rests w - 1\<rparr>))
      else w)"

text \<open>The public operations of a \<^verbatim>\<open>TickPlayer\<close>: those of \<^verbatim>\<open>AtomPlayer\<close>, with its hooks.\<close>

definition Tick_ready :: "'w tick_handle \<Rightarrow> 'w \<Rightarrow> 'w outcome" where
  "Tick_ready t w = ready (atom_of t) (Tick_hooks t) w"

definition Tick_play :: "'w tick_handle \<Rightarrow> 'w \<Rightarrow> 'w outcome" where
  "Tick_play t w = play (atom_of t) (Tick_hooks t) w"

definition Tick_pause :: "'w tick_handle \<Rightarrow> 'w \<Rightarrow> 'w outcome" where
  "Tick_pause t w = pause (atom_of t) (Tick_hooks t) w"

definition Tick_stop :: "'w tick_handle \<Rightarrow> 'w \<Rightarrow> 'w outcome" where
  "Tick_stop t w = stop (atom_of t) (Tick_hooks t) w"

definition Tick_seek :: "'w tick_handle \<Rightarrow> rat \<Rightarrow> 'w \<Rightarrow> 'w outcome" where
  "Tick_seek t ms w = seek (atom_of t) (Tick_hooks t) ms w"

section \<open>OffsetPlayer.ts: the sequential-offset combinator\<close>

text \<open>
  An \<^verbatim>\<open>OffsetPlayer\<close> owns a \<^verbatim>\<open>TickPlayer\<close> (\<open>timer\<close>) and wraps a player of any
  class; here the wrapped \<open>player\<close> is a \<^verbatim>\<open>TickPlayer\<close> too, the one leaf class of the
  repository that has no backend. \<open>base\<close> holds the combinator's own \<^verbatim>\<open>AtomPlayer\<close>
  fields, \<open>currentPlayer\<close> says which of the two objects \<^verbatim>\<open>_currentPlayer\<close> refers to,
  \<open>offset\<close> is \<^verbatim>\<open>_offset\<close>, and \<open>microtasks\<close> is the queue of what calls that were not
  awaited have left to run, oldest first.
\<close>

datatype active_child = the_timer | the_player

datatype offset_microtask = timer_stop_rest | player_stop_rest | handoff_rest seek_rest

record OffsetPlayer =
  base :: AtomPlayer
  player :: TickPlayer
  timer :: TickPlayer
  currentPlayer :: active_child
  offset :: rat
  microtasks :: "offset_microtask list"

text \<open>The listeners on the \<^verbatim>\<open>OffsetPlayer\<close> itself belong to its users; none is modelled.\<close>

definition offset_handle :: "OffsetPlayer handle" where
  "offset_handle =
     \<lparr>view = base, modify = (\<lambda>f w. w\<lparr>base := f (base w)\<rparr>), listeners = (\<lambda>ev w. w)\<rparr>"

text \<open>The private setter of \<^verbatim>\<open>currentPlayer\<close>.\<close>

definition set_currentPlayer :: "active_child \<Rightarrow> OffsetPlayer \<Rightarrow> OffsetPlayer" where
  "set_currentPlayer p w =
     (if currentPlayer w \<noteq> p
      then set_visible offset_handle (p \<noteq> the_timer) (w\<lparr>currentPlayer := p\<rparr>)
      else w)"

text \<open>
  The listeners that the constructor registers on the wrapped player with
  \<^verbatim>\<open>syncAtomProps\<close>. The \<^verbatim>\<open>ratechange\<close> listeners of both children and
  \<^verbatim>\<open>setPlaybackRateImpl\<close> call each other through the children's setters; playback-rate
  changes of a constructed \<^verbatim>\<open>OffsetPlayer\<close> are left out of this development: no
  operation below assigns a \<^verbatim>\<open>playbackRate\<close> once the listeners are registered, so
  no \<^verbatim>\<open>ratechange\<close> reaches them.
\<close>

definition player_listeners :: "AtomPlayerEvents \<Rightarrow> OffsetPlayer \<Rightarrow> OffsetPlayer" where
  "player_listeners ev w =
     (case ev of
        status_event \<Rightarrow>
          if currentPlayer w = the_player
          then set_status offset_handle (status (atom (player w))) w else w
      | timeupdate \<Rightarrow>
          if currentPlayer w = the_player
          then set_currentTime offset_handle
                 (of_int (currentTime (atom (player w))) + offset w) w
          else w
      | durationchange \<Rightarrow>
          set_duration offset_handle
            (of_int (duration (atom (timer w)) + duration (atom (player w)))) w
      | ratechange \<Rightarrow> w
      | visibilitychange \<Rightarrow> w
      | ready_event \<Rightarrow> w)"

definition player_handle :: "OffsetPlayer tick_handle" where
  "player_handle =
     \<lparr>tick = player, tick_modify = (\<lambda>f w. w\<lparr>player := f (player w)\<rparr>),
      tick_listeners = player_listeners,
      queue_stop = (\<lambda>w. w\<lparr>microtasks := microtasks w @ [player_stop_rest]\<rparr>)\<rparr>"

text \<open>
  The listeners on the timer. The status listener is \<^verbatim>\<open>async\<close> and nobody awaits it:
  when the timer has ended it runs \<^verbatim>\<open>this.player.seek(0)\<close> up to the first
  \<^verbatim>\<open>await\<close> and leaves the rest of the seek, and \<^verbatim>\<open>this.player.play()\<close> after it, on
  the microtask queue.
\<close>

definition timer_listeners :: "AtomPlayerEvents \<Rightarrow> OffsetPlayer \<Rightarrow> OffsetPlayer" where
  "timer_listeners ev w =
     (case ev of
        status_event \<Rightarrow>
          if currentPlayer w \<noteq> the_timer then w
          else if status (atom (timer w)) \<noteq> Ended
          then set_status offset_handle (status (atom (timer w))) w
          else
            let w1 = set_currentPlayer the_player w
            in if status (base w1) = Playing
               then (case seek_head (atom_of player_handle) (Tick_hooks player_handle) 0 w1 of
                       (w2, r) \<Rightarrow> w2\<lparr>microtasks := microtasks w2 @ [handoff_rest r]\<rparr>)
               else w1
      | timeupdate \<Rightarrow>
          if currentPlayer w = the_timer
          then set_currentTime offset_handle (of_int (currentTime (atom (timer w)))) w
          else w
      | durationchange \<Rightarrow>
          set_duration offset_handle
            (of_int (duration (atom (timer w)) + duration (atom (player w)))) w
      | ratechange \<Rightarrow> w
      | visibilitychange \<Rightarrow> w
      | ready_event \<Rightarrow> w)"

definition timer_handle :: "OffsetPlayer tick_handle" where
  "timer_handle =
     \<lparr>tick = timer, tick_modify = (\<lambda>f w. w\<lparr>timer := f (timer w)\<rparr>),
      tick_listeners = timer_listeners,
      queue_stop = (\<lambda>w. w\<lparr>microtasks := microtasks w @ [timer_stop_rest]\<rparr>)\<rparr>"

definition current_handle :: "OffsetPlayer \<Rightarrow> OffsetPlayer tick_handle" where
  "current_handle w = (if currentPlayer w = the_timer then timer_handle else player_handle)"

subsection \<open>The hooks\<close>

definition Offset_readyImpl :: "OffsetPlayer \<Rightarrow> OffsetPlayer outcome" where
  "Offset_readyImpl w = all2 (Tick_ready player_handle) (Tick_ready timer_handle) w"

definition Offset_playImpl :: "OffsetPlayer \<Rightarrow> OffsetPlayer outcome" where
  "Offset_playImpl w = Tick_play (current_handle w) w"

definition Offset_pauseImpl :: "OffsetPlayer \<Rightarrow> OffsetPlayer outcome" where
  "Offset_pauseImpl w = Tick_pause (current_handle w) w"

definition Offset_stopImpl :: "OffsetPlayer \<Rightarrow> OffsetPlayer outcome" where
  "Offset_stopImpl w =
     andThen (Tick_stop timer_handle w)
       (\<lambda>w1. andThen (Tick_stop player_handle w1)
       (\<lambda>w2. Done (set_currentPlayer the_player w2)))"

definition seekTimer :: "int \<Rightarrow> OffsetPlayer \<Rightarrow> OffsetPlayer outcome" where
  "seekTimer ms w =
     andThen
       (if currentPlayer w \<noteq> the_timer
        then andThen (Tick_ready player_handle (set_currentPlayer the_timer w))
               (Tick_seek player_handle 0)
        else Done w)
       (Tick_seek timer_handle (of_int ms))"

definition seekPlayer :: "int \<Rightarrow> OffsetPlayer \<Rightarrow> OffsetPlayer outcome" where
  "seekPlayer ms w =
     andThen
       (if currentPlayer w \<noteq> the_player
        then Tick_stop timer_handle (set_currentPlayer the_player w)
        else Done w)
       (\<lambda>w1. Tick_seek player_handle (of_int ms - offset w1) w1)"

definition Offset_seekImpl :: "int \<Rightarrow> OffsetPlayer \<Rightarrow> OffsetPlayer outcome" where
  "Offset_seekImpl ms w =
     (let oldPlayer = currentPlayer w;
          wasPlaying = isPlaying (atom_of (current_handle w)) w
      in andThen (if of_int ms \<ge> offset w then seekPlayer ms w else seekTimer ms w)
           (\<lambda>w1. if currentPlayer w1 \<noteq> oldPlayer \<and> wasPlaying
                  then Tick_play (current_handle w1) w1
                  else Done w1))"

definition Offset_hooks :: "OffsetPlayer hooks" where
  "Offset_hooks =
     \<lparr>readyImpl = Offset_readyImpl, playImpl = Offset_playImpl, pauseImpl = Offset_pauseImpl,
      stopImpl = Offset_stopImpl, seekImpl = Offset_seekImpl\<rparr>"

text \<open>
  \<^verbatim>\<open>setPlaybackRateImpl\<close>, for given references to the two children. The constructor
  reaches it (through \<^verbatim>\<open>this.playbackRate = ...\<close>) before any listener is registered,
  which is the one use made of it here.
\<close>

definition Offset_setPlaybackRateImpl ::
  "OffsetPlayer tick_handle \<Rightarrow> OffsetPlayer tick_handle \<Rightarrow> rat \<Rightarrow> OffsetPlayer \<Rightarrow> OffsetPlayer" where
  "Offset_setPlaybackRateImpl p t v w =
     set_playbackRate (atom_of t) (Tick_setPlaybackRateImpl t) v
       (set_playbackRate (atom_of p) (Tick_setPlaybackRateImpl p) v w)"

subsection \<open>The constructor and \<^verbatim>\<open>setOffset\<close>\<close>

definition OffsetPlayer_new :: "rat \<Rightarrow> TickPlayer \<Rightarrow> OffsetPlayer" where
  "OffsetPlayer_new offset' player' =
     (let w0 = \<lparr>base = AtomPlayer_new, player = player', timer = TickPlayer_new offset',
                currentPlayer = (if offset' > 0 then the_timer else the_player),
                offset = offset', microtasks = []\<rparr>;
          w1 = set_status offset_handle (status (atom (tick (current_handle w0) w0))) w0;
          w2 = set_duration offset_handle
                 (of_int (duration (atom (timer w1)) + duration (atom (player w1)))) w1;
          w3 = set_currentTime offset_handle
                 (if currentPlayer w2 = the_timer
                  then of_int (currentTime (atom (timer w2)))
                  else of_int (currentTime (atom (player w2))) + offset w2) w2;
          w4 = w3\<lparr>base := (base w3)\<lparr>visible := (currentPlayer w3 \<noteq> the_timer)\<rparr>\<rparr>
      in set_playbackRate offset_handle
           (Offset_setPlaybackRateImpl
              (player_handle\<lparr>tick_listeners := (\<lambda>ev w. w)\<rparr>)
              (timer_handle\<lparr>tick_listeners := (\<lambda>ev w. w)\<rparr>))
           (playbackRate (atom (tick (current_handle w4) w4))) w4)"


subsection \<open>The public operations, and what the event loop runs\<close>

definition Offset_ready :: "OffsetPlayer \<Rightarrow> OffsetPlayer outcome" where
  "Offset_ready w = ready offset_handle Offset_hooks w"

definition Offset_play :: "OffsetPlayer \<Rightarrow> OffsetPlayer outcome" where
  "Offset_play w = play offset_handle Offset_hooks w"






subsection \<open>Runs of an \<^verbatim>\<open>OffsetPlayer\<close>\<close>







section \<open>ClusterPlayer.ts: the cross-sync combinator\<close>

text \<open>
  A \<^verbatim>\<open>ClusterPlayer\<close> holds two players of any class. The state has the combinator's
  own \<^verbatim>\<open>AtomPlayer\<close> fields (\<open>own\<close>) and, of each child, the \<^verbatim>\<open>AtomPlayer\<close> fields the
  combinator reads. What the combinator does to a child is call one of its public
  operations: \<open>invoked\<close> records these calls, oldest first; what a call does to the
  child comes back as the child's later events. \<open>frameDropCount\<close> is \<open>None\<close> while
  \<^verbatim>\<open>stopFrameDropCheck\<close> is \<^verbatim>\<open>undefined\<close> (no interval is installed), and \<open>Some n\<close>
  while the interval of \<^verbatim>\<open>startFrameDropCheck\<close> is installed and its counter is \<open>n\<close>.
\<close>

datatype sub_player = Row | Col

datatype invocation =
  invoke_ready sub_player | invoke_play sub_player | invoke_pause sub_player
| invoke_stop sub_player | invoke_seek sub_player rat

record ClusterPlayer =
  own :: AtomPlayer
  rowPlayer :: AtomPlayer
  colPlayer :: AtomPlayer
  frameDropCount :: "nat option"
  invoked :: "invocation list"

definition cluster :: "ClusterPlayer handle" where
  "cluster = \<lparr>view = own, modify = (\<lambda>f c. c\<lparr>own := f (own c)\<rparr>), listeners = (\<lambda>ev c. c)\<rparr>"

fun sub :: "sub_player \<Rightarrow> ClusterPlayer \<Rightarrow> AtomPlayer" where
  "sub Row c = rowPlayer c"
| "sub Col c = colPlayer c"

definition invokeSubPlayers :: "(sub_player \<Rightarrow> invocation) \<Rightarrow> ClusterPlayer \<Rightarrow> ClusterPlayer" where
  "invokeSubPlayers action c = c\<lparr>invoked := invoked c @ map action [Row, Col]\<rparr>"

definition Cluster_playImpl :: "ClusterPlayer \<Rightarrow> ClusterPlayer" where
  "Cluster_playImpl c = invokeSubPlayers (\<lambda>player. invoke_play player) c"

definition Cluster_seekImpl :: "rat \<Rightarrow> ClusterPlayer \<Rightarrow> ClusterPlayer" where
  "Cluster_seekImpl ms c =
     (let wasPlaying = isPlaying cluster c;
          c1 = invokeSubPlayers (\<lambda>player. invoke_seek player ms) c
      in if wasPlaying then Cluster_playImpl c1 else c1)"

text \<open>\<^verbatim>\<open>ClusterPlayer\<close> overrides \<^verbatim>\<open>seek\<close>: it is \<^verbatim>\<open>seekImpl\<close>, with no gate and no clamp.\<close>

definition Cluster_seek :: "rat \<Rightarrow> ClusterPlayer \<Rightarrow> ClusterPlayer" where
  "Cluster_seek ms c = Cluster_seekImpl ms c"

definition updateStatus :: "sub_player \<Rightarrow> sub_player \<Rightarrow> ClusterPlayer \<Rightarrow> ClusterPlayer" where
  "updateStatus emitter receptor c =
     (case status (sub emitter c) of
        Ready \<Rightarrow>
          if status (sub receptor c) = Ready \<or> status (sub receptor c) = Ended
          then set_status cluster Ready c else c
      | Pause \<Rightarrow>
          if status (sub receptor c) \<noteq> Playing then set_status cluster Pause c else c
      | Buffering \<Rightarrow>
          if status (sub receptor c) \<noteq> Pause then set_status cluster Buffering c else c
      | Playing \<Rightarrow>
          if status (sub receptor c) = Playing \<or> status (sub receptor c) = Ended
          then set_status cluster Playing c else c
      | Ended \<Rightarrow> set_status cluster (status (sub receptor c)) c)"

definition startFrameDropCheck :: "ClusterPlayer \<Rightarrow> ClusterPlayer" where
  "startFrameDropCheck c =
     (case frameDropCount c of
        Some n \<Rightarrow> c
      | None \<Rightarrow> c\<lparr>frameDropCount := Some 0\<rparr>)"

definition stopFrameDropCheck :: "ClusterPlayer \<Rightarrow> ClusterPlayer" where
  "stopFrameDropCheck c = c\<lparr>frameDropCount := None\<rparr>"


section \<open>SyncPlayer.ts: the tree builder\<close>

text \<open>
  \<open>new_ClusterPlayer r c\<close> stands for the object \<^verbatim>\<open>new ClusterPlayer(r, c)\<close>, \<open>Leaf a\<close>
  for any other player. \<open>reduce\<close> is \<^verbatim>\<open>Array.prototype.reduce\<close> called with a callback
  and no initial value: it throws a \<^verbatim>\<open>TypeError\<close> on the empty array, and otherwise
  starts from the first element.
\<close>

datatype 'a player = Leaf 'a | new_ClusterPlayer "'a player" "'a player"

datatype js_error = TypeError

fun reduce :: "('a \<Rightarrow> 'a \<Rightarrow> 'a) \<Rightarrow> 'a list \<Rightarrow> js_error + 'a" where
  "reduce f [] = Inl TypeError"
| "reduce f (x # xs) = Inr (foldl f x xs)"

definition SyncPlayer :: "'a player list \<Rightarrow> js_error + 'a player" where
  "SyncPlayer players =
     reduce (\<lambda>combinedPlayer player. new_ClusterPlayer combinedPlayer player) players"

section \<open>Example states\<close>

text \<open>
  Concrete states for the examples below: the \<^verbatim>\<open>AtomPlayer\<close> fields of an initialized
  player in status \<open>s\<close>, at time \<open>t\<close>, of duration \<open>d\<close>; and a program with a new
  \<^verbatim>\<open>TickPlayer\<close> once the timer task of its \<^verbatim>\<open>init\<close> has run.
\<close>

definition atom_in :: "SyncPlayerStatus \<Rightarrow> int \<Rightarrow> int \<Rightarrow> AtomPlayer" where
  "atom_in s t d =
     \<lparr>initStatus = Init_Ready, status = s, ignoreSetStatus = False, currentTime = t,
      duration = d, playbackRate = 1, visible = True, emitted = []\<rparr>"

definition Solo_initialized :: "rat \<Rightarrow> Solo" where
  "Solo_initialized duration' = init_resume (atom_of solo) (Solo_new duration')"



section \<open>Invariants and what keeps them\<close>

text \<open>
  The proofs about \<^verbatim>\<open>OffsetPlayer\<close> follow one pattern: a property \<open>I\<close> of the program
  state is kept by every write the operations are made of, hence by the operations.
  \<open>tick_frame I t\<close> says so for the writes of the \<^verbatim>\<open>TickPlayer\<close> \<open>t\<close> (any change of
  its fields that leaves the duration and the initialization status alone, its
  listeners, its microtask), \<open>offset_frame I\<close> for the writes of an \<^verbatim>\<open>OffsetPlayer\<close>
  that its children and their listeners perform, \<open>base_frame I\<close> for the writes to
  its own fields that leave its duration alone.
\<close>

definition keeps :: "('w \<Rightarrow> bool) \<Rightarrow> ('w \<Rightarrow> 'w) \<Rightarrow> bool" where
  "keeps I f = (\<forall>w. I w \<longrightarrow> I (f w))"

definition keeps_outcome :: "('w \<Rightarrow> bool) \<Rightarrow> ('w \<Rightarrow> 'w outcome) \<Rightarrow> bool" where
  "keeps_outcome I f = (\<forall>w. I w \<longrightarrow> I (state_of (f w)))"


definition tick_frame :: "('w \<Rightarrow> bool) \<Rightarrow> 'w tick_handle \<Rightarrow> bool" where
  "tick_frame I t =
     ((\<forall>f. (\<forall>x. duration (atom (f x)) = duration (atom x)
                \<and> initStatus (atom (f x)) = initStatus (atom x))
           \<longrightarrow> keeps I (tick_modify t f))
      \<and> (\<forall>ev. keeps I (tick_listeners t ev))
      \<and> keeps I (queue_stop t))"

definition offset_frame :: "(OffsetPlayer \<Rightarrow> bool) \<Rightarrow> bool" where
  "offset_frame I =
     ((\<forall>f. (\<forall>x. duration (atom (f x)) = duration (atom x)
                \<and> initStatus (atom (f x)) = initStatus (atom x))
           \<longrightarrow> keeps I (\<lambda>w. w\<lparr>player := f (player w)\<rparr>)
               \<and> keeps I (\<lambda>w. w\<lparr>timer := f (timer w)\<rparr>))
      \<and> (\<forall>v. keeps I (set_status offset_handle v))
      \<and> (\<forall>ms. keeps I (set_currentTime offset_handle ms))
      \<and> keeps I (\<lambda>w. set_duration offset_handle
                        (of_int (duration (atom (timer w)) + duration (atom (player w)))) w)
      \<and> (\<forall>b. keeps I (set_visible offset_handle b))
      \<and> (\<forall>p. keeps I (\<lambda>w. w\<lparr>currentPlayer := p\<rparr>))
      \<and> (\<forall>q. keeps I (\<lambda>w. w\<lparr>microtasks := q\<rparr>)))"


text \<open>
  The invariants: the three durations, with the combinator's the sum of the other two;
  the combinator's status assignment is suppressed, its status is \<open>s\<close> and the status
  events it has emitted are \<open>evs\<close>; the combinator is as its constructor's call of
  \<^verbatim>\<open>init\<close> left it.
\<close>

definition durations :: "int \<Rightarrow> int \<Rightarrow> OffsetPlayer \<Rightarrow> bool" where
  "durations d1 d2 w =
     (duration (atom (timer w)) = d1 \<and> duration (atom (player w)) = d2
      \<and> duration (base w) = d1 + d2)"


definition gated :: "OffsetPlayer \<Rightarrow> bool" where
  "gated w =
     (initStatus (base w) = Initializing \<and> ignoreSetStatus (base w) \<and> status (base w) = Ready)"

section \<open>Lemmas\<close>

subsection \<open>Reading and writing through the handles\<close>

lemma offset_handle_simps:
  "view offset_handle w = base w"
  "modify offset_handle f w = w\<lparr>base := f (base w)\<rparr>"
  "listeners offset_handle ev w = w"
  by (simp_all add: offset_handle_def)

lemma atom_of_simps:
  "view (atom_of t) w = atom (tick t w)"
  "modify (atom_of t) f w = tick_modify t (\<lambda>x. x\<lparr>atom := f (atom x)\<rparr>) w"
  "listeners (atom_of t) ev w = tick_listeners t ev w"
  by (simp_all add: atom_of_def)

lemma unshared_simps:
  "tick unshared x = x"
  "tick_modify unshared f x = f x"
  "tick_listeners unshared ev x = x"
  "queue_stop unshared x = x"
  by (simp_all add: unshared_def)

lemma solo_handle_simps:
  "tick solo w = the_tick w"
  "tick_modify solo f w = w\<lparr>the_tick := f (the_tick w)\<rparr>"
  "tick_listeners solo ev w = w"
  "queue_stop solo w = w\<lparr>stop_rests := stop_rests w + 1\<rparr>"
  by (simp_all add: solo_def)

lemma player_handle_simps:
  "tick player_handle w = player w"
  "tick_modify player_handle f w = w\<lparr>player := f (player w)\<rparr>"
  "tick_listeners player_handle ev w = player_listeners ev w"
  "queue_stop player_handle w = w\<lparr>microtasks := microtasks w @ [player_stop_rest]\<rparr>"
  "tick (player_handle\<lparr>tick_listeners := l\<rparr>) w = player w"
  "tick_modify (player_handle\<lparr>tick_listeners := l\<rparr>) f w = w\<lparr>player := f (player w)\<rparr>"
  "tick_listeners (player_handle\<lparr>tick_listeners := l\<rparr>) ev w = l ev w"
  "queue_stop (player_handle\<lparr>tick_listeners := l\<rparr>) w
     = w\<lparr>microtasks := microtasks w @ [player_stop_rest]\<rparr>"
  by (simp_all add: player_handle_def)

lemma timer_handle_simps:
  "tick timer_handle w = timer w"
  "tick_modify timer_handle f w = w\<lparr>timer := f (timer w)\<rparr>"
  "tick_listeners timer_handle ev w = timer_listeners ev w"
  "queue_stop timer_handle w = w\<lparr>microtasks := microtasks w @ [timer_stop_rest]\<rparr>"
  "tick (timer_handle\<lparr>tick_listeners := l\<rparr>) w = timer w"
  "tick_modify (timer_handle\<lparr>tick_listeners := l\<rparr>) f w = w\<lparr>timer := f (timer w)\<rparr>"
  "tick_listeners (timer_handle\<lparr>tick_listeners := l\<rparr>) ev w = l ev w"
  "queue_stop (timer_handle\<lparr>tick_listeners := l\<rparr>) w
     = w\<lparr>microtasks := microtasks w @ [timer_stop_rest]\<rparr>"
  by (simp_all add: timer_handle_def)



lemmas handle_simps = offset_handle_simps atom_of_simps unshared_simps solo_handle_simps
  player_handle_simps timer_handle_simps

lemma AtomPlayer_new_eq:
  "AtomPlayer_new =
     \<lparr>initStatus = Initializing, status = Ready, ignoreSetStatus = True, currentTime = 0,
      duration = 0, playbackRate = 1, visible = True, emitted = []\<rparr>"
  by (simp add: AtomPlayer_new_def init_def alone_def)


subsection \<open>What the operations of a \<^verbatim>\<open>TickPlayer\<close> keep\<close>

lemma keepsD: "keeps I f \<Longrightarrow> I w \<Longrightarrow> I (f w)"
  by (simp add: keeps_def)

lemma keeps_outcomeD: "keeps_outcome I f \<Longrightarrow> I w \<Longrightarrow> I (state_of (f w))"
  by (simp add: keeps_outcome_def)



lemma tf_modify:
  "tick_frame I t \<Longrightarrow> I w
   \<Longrightarrow> (\<And>x. duration (atom (f x)) = duration (atom x) \<and> initStatus (atom (f x)) = initStatus (atom x))
   \<Longrightarrow> I (tick_modify t f w)"
  by (simp add: tick_frame_def keeps_def)

lemma tf_listeners: "tick_frame I t \<Longrightarrow> I w \<Longrightarrow> I (tick_listeners t ev w)"
  by (simp add: tick_frame_def keeps_def)

lemma tf_queue: "tick_frame I t \<Longrightarrow> I w \<Longrightarrow> I (queue_stop t w)"
  by (simp add: tick_frame_def keeps_def)

lemma tf_emit: "tick_frame I t \<Longrightarrow> I w \<Longrightarrow> I (emit (atom_of t) ev w)"
  by (simp add: emit_def atom_of_simps tf_listeners tf_modify)

lemma tf_set_status: "tick_frame I t \<Longrightarrow> I w \<Longrightarrow> I (set_status (atom_of t) v w)"
  by (simp add: set_status_def atom_of_simps(2) tf_emit tf_modify)

lemma tf_set_currentTime: "tick_frame I t \<Longrightarrow> I w \<Longrightarrow> I (set_currentTime (atom_of t) ms w)"
  by (simp add: set_currentTime_def Let_def atom_of_simps(2) tf_emit tf_modify)

lemma tf_stopTimer: "tick_frame I t \<Longrightarrow> I w \<Longrightarrow> I (stopTimer t w)"
  by (simp add: stopTimer_def tf_modify)


lemma tf_stop_head:
  "tick_frame I t \<Longrightarrow> I w \<Longrightarrow> stop_head (atom_of t) (Tick_readyImpl t) w = (w1, r) \<Longrightarrow> I w1"
  by (auto simp add: stop_head_def Tick_readyImpl_def atom_of_simps(2) tf_stopTimer tf_modify
      tf_set_status split: if_splits)

lemma tf_playRaf:
  assumes F: "tick_frame I t" and I: "I w"
  shows "I (playRaf t e w)"
proof -
  let ?w1 = "set_currentTime (atom_of t)
               (of_int e * timerRate (tick t w) + of_int (startTime (tick t w))) w"
  have 1: "I ?w1"
    using F I by (rule tf_set_currentTime)
  obtain w2 r where h: "stop_head (atom_of t) (Tick_readyImpl t) ?w1 = (w2, r)"
    by (cases "stop_head (atom_of t) (Tick_readyImpl t) ?w1")
  have 2: "I w2"
    using F 1 h by (rule tf_stop_head)
  show ?thesis
    using F 1 2 h by (simp add: playRaf_def Let_def tf_modify tf_queue)
qed

lemma tf_startTimer: "tick_frame I t \<Longrightarrow> I w \<Longrightarrow> I (startTimer t s r w)"
  by (simp add: startTimer_def tf_playRaf tf_modify)

lemma tf_resetTimer: "tick_frame I t \<Longrightarrow> I w \<Longrightarrow> I (resetTimer t s r w)"
  by (simp add: resetTimer_def tf_startTimer tf_set_currentTime)



lemma tf_stopImpl: "tick_frame I t \<Longrightarrow> I w \<Longrightarrow> I (state_of (Tick_stopImpl t w))"
  by (simp add: Tick_stopImpl_def Let_def tf_stopTimer tf_set_currentTime)

lemma tf_seekImpl: "tick_frame I t \<Longrightarrow> I w \<Longrightarrow> I (state_of (Tick_seekImpl t ms w))"
  by (simp add: Tick_seekImpl_def tf_resetTimer)












subsection \<open>What the listeners and hooks of an \<^verbatim>\<open>OffsetPlayer\<close> keep\<close>



lemma of_set_status: "offset_frame I \<Longrightarrow> I w \<Longrightarrow> I (set_status offset_handle v w)"
  by (simp add: offset_frame_def keeps_def)

lemma of_set_currentTime: "offset_frame I \<Longrightarrow> I w \<Longrightarrow> I (set_currentTime offset_handle ms w)"
  by (simp add: offset_frame_def keeps_def)



















subsection \<open>What the public operations of an \<^verbatim>\<open>OffsetPlayer\<close> keep\<close>












subsection \<open>The durations of an \<^verbatim>\<open>OffsetPlayer\<close>\<close>

lemma tf_set_playbackRate:
  "tick_frame I t \<Longrightarrow> I w
   \<Longrightarrow> I (set_playbackRate (atom_of t) (Tick_setPlaybackRateImpl t) v w)"
  by (simp add: set_playbackRate_def Let_def Tick_setPlaybackRateImpl_def atom_of_simps(2)
      tf_emit tf_modify tf_resetTimer)



lemma durations_self:
  "duration (base w) = duration (atom (timer w)) + duration (atom (player w))
   \<Longrightarrow> durations (duration (atom (timer w))) (duration (atom (player w))) w"
  by (simp add: durations_def)

lemma durations_sum:
  "durations d1 d2 w \<Longrightarrow> duration (base w) = duration (atom (timer w)) + duration (atom (player w))"
  by (simp add: durations_def)







subsection \<open>Operations on initialized players finish\<close>











subsection \<open>\<^verbatim>\<open>stop\<close> and \<^verbatim>\<open>seek\<close> to the end\<close>

lemmas solo_simps = atom_of_def solo_def Tick_hooks_def Tick_readyImpl_def Tick_stopImpl_def
  stopTimer_def set_status_def set_currentTime_def emit_def isReady_def Let_def

lemmas new_simps = Solo_initialized_def Solo_new_def TickPlayer_new_def AtomPlayer_new_def
  init_def init_resume_def alone_def unshared_def set_duration_def

lemma set_status_cluster:
  "\<not> ignoreSetStatus (own c) \<Longrightarrow> status (own (set_status cluster v c)) = v"
  by (simp add: set_status_def cluster_def emit_def)





subsection \<open>A new \<^verbatim>\<open>OffsetPlayer\<close> is as \<^verbatim>\<open>init\<close> left it\<close>

lemma gated_offset_frame: "offset_frame gated"
  by (simp add: offset_frame_def keeps_def gated_def set_status_def set_currentTime_def
      set_duration_def set_visible_def emit_def offset_handle_simps Let_def)

lemma gated_unlistened:
  "tick_frame gated (player_handle\<lparr>tick_listeners := (\<lambda>ev w. w)\<rparr>)"
  "tick_frame gated (timer_handle\<lparr>tick_listeners := (\<lambda>ev w. w)\<rparr>)"
  by (simp_all add: tick_frame_def keeps_def gated_def handle_simps)

lemma gated_new: "gated (OffsetPlayer_new offset' player')"
proof -
  let ?w0 = "\<lparr>base = AtomPlayer_new, player = player', timer = TickPlayer_new offset',
                currentPlayer = (if offset' > 0 then the_timer else the_player),
                offset = offset', microtasks = []\<rparr>"
  let ?w1 = "set_status offset_handle (status (atom (tick (current_handle ?w0) ?w0))) ?w0"
  let ?w2 = "set_duration offset_handle
                 (of_int (duration (atom (timer ?w1)) + duration (atom (player ?w1)))) ?w1"
  let ?w3 = "set_currentTime offset_handle
                 (if currentPlayer ?w2 = the_timer
                  then of_int (currentTime (atom (timer ?w2)))
                  else of_int (currentTime (atom (player ?w2))) + offset ?w2) ?w2"
  let ?w4 = "?w3\<lparr>base := (base ?w3)\<lparr>visible := (currentPlayer ?w3 \<noteq> the_timer)\<rparr>\<rparr>"
  let ?p0 = "player_handle\<lparr>tick_listeners := (\<lambda>ev w. w)\<rparr>"
  let ?t0 = "timer_handle\<lparr>tick_listeners := (\<lambda>ev w. w)\<rparr>"
  have 0: "gated ?w0"
    by (simp add: gated_def AtomPlayer_new_eq)
  have 1: "gated ?w1"
    using gated_offset_frame 0 by (rule of_set_status)
  have 2: "gated ?w2"
    using 1 by (simp add: gated_def set_duration_def emit_def offset_handle_simps Let_def)
  have 3: "gated ?w3"
    using gated_offset_frame 2 by (rule of_set_currentTime)
  have 4: "gated ?w4"
    using 3 by (simp add: gated_def)
  have impl: "gated (Offset_setPlaybackRateImpl ?p0 ?t0 r w)" if "gated w" for r w
    using that by (simp add: Offset_setPlaybackRateImpl_def tf_set_playbackRate gated_unlistened)
  have upd: "gated (emit offset_handle ratechange (modify offset_handle (\<lambda>p. p\<lparr>playbackRate := r\<rparr>) w))"
    if "gated w" for r w
    using that by (simp add: gated_def emit_def offset_handle_simps)
  have 5: "gated (set_playbackRate offset_handle (Offset_setPlaybackRateImpl ?p0 ?t0) v ?w4)" for v
    using 4 by (simp add: set_playbackRate_def Let_def impl upd)
  show ?thesis
    unfolding OffsetPlayer_new_def Let_def by (rule 5)
qed

lemma gated_ready_play:
  "gated w \<Longrightarrow> Offset_ready w = AwaitInit w \<and> Offset_play w = AwaitInit w"
  by (simp add: gated_def Offset_ready_def Offset_play_def ready_def play_def isReady_def
      set_status_def offset_handle_simps)

subsection \<open>An \<^verbatim>\<open>OffsetPlayer\<close> of offset 3000\<close>












section \<open>Theorems\<close>

text \<open>
  Claim C1. One run of the status derivation \<open>updateStatus\<close>, with one child as emitter
  and the other as receptor, sets the combinator's status by the table of the claim,
  and in every case outside the table leaves the combinator as it is. The status
  listener runs the derivation only while \<^verbatim>\<open>ignoreSetStatus\<close> is off (it returns at once
  otherwise), which is the hypothesis.
\<close>

theorem updateStatus_table:
  assumes "\<not> ignoreSetStatus (own c)"
  shows "status (own (updateStatus emitter receptor c)) =
           (let e = status (sub emitter c); r = status (sub receptor c) in
            if e = Playing \<and> (r = Playing \<or> r = Ended) then Playing
            else if e = Pause \<and> r \<noteq> Playing then Pause
            else if e = Buffering \<and> r \<noteq> Pause then Buffering
            else if e = Ready \<and> (r = Ready \<or> r = Ended) then Ready
            else if e = Ended then r
            else status (own c))
         \<and> ((case status (sub emitter c) of
                Playing \<Rightarrow> status (sub receptor c) \<noteq> Playing \<and> status (sub receptor c) \<noteq> Ended
              | Pause \<Rightarrow> status (sub receptor c) = Playing
              | Buffering \<Rightarrow> status (sub receptor c) = Pause
              | Ready \<Rightarrow> status (sub receptor c) \<noteq> Ready \<and> status (sub receptor c) \<noteq> Ended
              | Ended \<Rightarrow> False)
             \<longrightarrow> updateStatus emitter receptor c = c)"
  using assms
  by (simp add: updateStatus_def set_status_cluster Let_def split: SyncPlayerStatus.splits)

theorem updateStatus_table_witness:
  "\<not> ignoreSetStatus (atom_in Pause 0 9000)
   \<and> status (own (updateStatus Row Col
        \<lparr>own = atom_in Pause 0 9000, rowPlayer = atom_in Playing 0 9000,
         colPlayer = atom_in Ended 4000 4000, frameDropCount = None, invoked = []\<rparr>)) = Playing
   \<and> updateStatus Col Row
        \<lparr>own = atom_in Pause 0 9000, rowPlayer = atom_in Playing 0 9000,
         colPlayer = atom_in Pause 0 4000, frameDropCount = None, invoked = []\<rparr>
      = \<lparr>own = atom_in Pause 0 9000, rowPlayer = atom_in Playing 0 9000,
         colPlayer = atom_in Pause 0 4000, frameDropCount = None, invoked = []\<rparr>"
  using updateStatus_table [of "\<lparr>own = atom_in Pause 0 9000, rowPlayer = atom_in Playing 0 9000,
         colPlayer = atom_in Ended 4000 4000, frameDropCount = None, invoked = []\<rparr>" Row Col]
    updateStatus_table [of "\<lparr>own = atom_in Pause 0 9000, rowPlayer = atom_in Playing 0 9000,
         colPlayer = atom_in Pause 0 4000, frameDropCount = None, invoked = []\<rparr>" Col Row]
  by (simp add: atom_in_def)






text \<open>
  Claim C4 (the code departs from it). A new \<^verbatim>\<open>TickPlayer\<close>, of any duration, and a new
  \<^verbatim>\<open>OffsetPlayer\<close>, of any offset around any player, have their initialization in flight
  and \<^verbatim>\<open>ignoreSetStatus\<close> on, as the constructor's call of \<^verbatim>\<open>init\<close> leaves them. \<open>ready\<close>
  and \<open>play\<close> then suspend on the initialization, but their assignment of \<open>Buffering\<close>
  is suppressed: the state while they wait is the state before the call, and its
  status is \<open>Ready\<close>.
\<close>

theorem ready_play_before_init:
  "Tick_ready solo (Solo_new d) = AwaitInit (Solo_new d)
   \<and> Tick_play solo (Solo_new d) = AwaitInit (Solo_new d)
   \<and> status (atom (the_tick (Solo_new d))) = Ready
   \<and> Offset_ready (OffsetPlayer_new offset' player') = AwaitInit (OffsetPlayer_new offset' player')
   \<and> Offset_play (OffsetPlayer_new offset' player') = AwaitInit (OffsetPlayer_new offset' player')
   \<and> status (base (OffsetPlayer_new offset' player')) = Ready"
  using gated_new [of offset' player'] gated_ready_play [of "OffsetPlayer_new offset' player'"]
  by (simp add: gated_def Tick_ready_def Tick_play_def ready_def play_def new_simps solo_simps)

text \<open>
  Claim C5, as amended. \<open>seek(ms)\<close> of a \<^verbatim>\<open>ClusterPlayer\<close> calls \<open>seek(ms)\<close> on the row
  child and then on the column child, and after them \<open>play\<close> on both exactly when the
  combinator's own status was \<open>Playing\<close> or \<open>Buffering\<close> before the call.
\<close>

theorem Cluster_seek_calls:
  "invoked (Cluster_seek ms c) =
     invoked c @ [invoke_seek Row ms, invoke_seek Col ms]
       @ (if isPlaying cluster c then [invoke_play Row, invoke_play Col] else [])"
  by (simp add: Cluster_seek_def Cluster_seekImpl_def Cluster_playImpl_def
      invokeSubPlayers_def Let_def)

text \<open>
  The claim as stated fails: with both children and the combinator paused, the row
  child starts playing; the derivation (emitter \<open>Playing\<close>, receptor \<open>Pause\<close>) leaves the
  combinator \<open>Pause\<close>. A child is now playing, and \<open>seek(1000)\<close> calls \<open>seek\<close> on both
  children and \<open>play\<close> on neither.
\<close>

theorem Cluster_seek_calls_counterexample:
  "(let c = updateStatus Row Col
              \<lparr>own = atom_in Pause 0 9000, rowPlayer = atom_in Playing 0 9000,
               colPlayer = atom_in Pause 0 4000, frameDropCount = None, invoked = []\<rparr> in
    (isPlaying alone (rowPlayer c) \<or> isPlaying alone (colPlayer c))
    \<and> invoked (Cluster_seek 1000 c) = [invoke_seek Row 1000, invoke_seek Col 1000])"
  by (simp add: Cluster_seek_def Cluster_seekImpl_def Cluster_playImpl_def
      invokeSubPlayers_def updateStatus_def isPlaying_def alone_def cluster_def atom_in_def)



text \<open>
  Claim C7. Assigning to \<open>status\<close>, \<open>currentTime\<close>, \<open>duration\<close>, \<open>playbackRate\<close> or
  \<open>visible\<close> a value equal to the stored one (once floored, for the two times; once
  normalized to three decimals, for the rate) returns the state as it was: no field
  changes, no hook runs, and nothing is added to the events emitted. This holds for
  every player object \<open>h\<close> of every program state, whatever listeners it has.
\<close>

theorem setters_idempotent:
  "set_status h (status (view h w)) w = w
   \<and> (\<lfloor>ms\<rfloor> = currentTime (view h w) \<longrightarrow> set_currentTime h ms w = w)
   \<and> (\<lfloor>ms\<rfloor> = duration (view h w) \<longrightarrow> set_duration h ms w = w)
   \<and> (normalize v = playbackRate (view h w) \<longrightarrow> set_playbackRate h impl v w = w)
   \<and> set_visible h (visible (view h w)) w = w"
  by (simp add: set_status_def set_currentTime_def set_duration_def set_playbackRate_def
      set_visible_def isEqual_def Let_def)

theorem setters_idempotent_witness:
  "set_status alone Pause (atom_in Pause 2500 9000) = atom_in Pause 2500 9000
   \<and> set_currentTime alone 2500 (atom_in Pause 2500 9000) = atom_in Pause 2500 9000
   \<and> set_duration alone 9000 (atom_in Pause 2500 9000) = atom_in Pause 2500 9000
   \<and> set_playbackRate alone (\<lambda>rate p. p\<lparr>visible := False\<rparr>) 1 (atom_in Pause 2500 9000)
       = atom_in Pause 2500 9000
   \<and> set_visible alone True (atom_in Pause 2500 9000) = atom_in Pause 2500 9000"
  using setters_idempotent [of alone "atom_in Pause 2500 9000" 2500 1
      "\<lambda>rate p. p\<lparr>visible := False\<rparr>"]
    setters_idempotent [of alone "atom_in Pause 2500 9000" 9000 1
      "\<lambda>rate p. p\<lparr>visible := False\<rparr>"]
  by (simp add: alone_def atom_in_def normalize_def)



text \<open>
  Claim C9. \<open>SyncPlayer\<close> folds the combinator over the list from the left: three
  players \<open>[P0, P1, P2]\<close> give \<open>ClusterPlayer(ClusterPlayer(P0, P1), P2)\<close>, a single
  player is returned as it is (no combinator is constructed), and in general one more
  player at the end of a non-empty list is combined with the root of the list before it.
\<close>

theorem SyncPlayer_left_fold:
  "SyncPlayer [P0, P1, P2] = Inr (new_ClusterPlayer (new_ClusterPlayer P0 P1) P2)
   \<and> SyncPlayer [P0] = Inr P0
   \<and> SyncPlayer ((p # ps) @ [q])
       = map_sum id (\<lambda>root. new_ClusterPlayer root q) (SyncPlayer (p # ps))"
  by (simp add: SyncPlayer_def)

text \<open>
  Claim C10. On the empty list \<open>SyncPlayer\<close> throws (the \<^verbatim>\<open>TypeError\<close> of \<^verbatim>\<open>reduce\<close>);
  on every non-empty list it returns a root player.
\<close>

theorem SyncPlayer_throws_only_on_empty:
  "SyncPlayer [] = Inl TypeError \<and> (players \<noteq> [] \<longrightarrow> (\<exists>root. SyncPlayer players = Inr root))"
  by (cases players) (simp_all add: SyncPlayer_def)

theorem SyncPlayer_throws_only_on_empty_witness:
  "SyncPlayer ([] :: nat player list) = Inl TypeError
   \<and> (\<exists>root. SyncPlayer [Leaf (0::nat), Leaf 1] = Inr root)"
  using SyncPlayer_throws_only_on_empty [of "[Leaf (0::nat), Leaf 1]"] by simp

end
